theory Spec2Isabelle
  imports Complex_Main
begin

section \<open>The random source\<close>

text \<open>
  \<^verbatim>\<open>Math.random()\<close> returns a number that is at least 0 and less than 1. A value of
  type \<open>rnd\<close> is one such result; \<open>rnd_value\<close> reads it as a real number. The products
  and sums the scripts form from it are taken exactly (the rounding of IEEE doubles is
  not modelled).
\<close>

typedef rnd = "{r::real. 0 \<le> r \<and> r < 1}"
  morphisms rnd_value Rnd
  by (rule exI[of _ 0]) simp

setup_lifting type_definition_rnd

text \<open>\<open>draw k n\<close> is the result \<open>k / n\<close> (for \<open>k < n\<close>), used to run the models on
  concrete random outcomes.\<close>

lift_definition draw :: "nat \<Rightarrow> nat \<Rightarrow> rnd" is
  "\<lambda>k n. if k < n then real k / real n else 0"
  by auto

section \<open>State-Board Updater (scripts/generate-quokka.js)\<close>

subsection \<open>Numbers, objects and strings\<close>

text \<open>
  The counters of the state record are integers; the only other number the script can
  produce from them is \<open>NaN\<close> (\<^verbatim>\<open>undefined + 1\<close> for a target that is not a key of
  \<^verbatim>\<open>eaten_leaves\<close>; a target that names a property every object inherits, such as
  \<^verbatim>\<open>toString\<close>, is outside the model).
\<close>

datatype jsnum = Num int | NaN

fun js_add :: "jsnum \<Rightarrow> jsnum \<Rightarrow> jsnum" where
  "js_add (Num a) (Num b) = Num (a + b)"
| "js_add _ _ = NaN"

text \<open>\<^verbatim>\<open>Math.floor(n / d)\<close> for a number \<open>n\<close> and a literal \<open>d\<close>.\<close>

fun Math_floor_div :: "jsnum \<Rightarrow> int \<Rightarrow> jsnum" where
  "Math_floor_div (Num n) d = Num \<lfloor>real_of_int n / real_of_int d\<rfloor>"
| "Math_floor_div NaN d = NaN"

text \<open>An object with string keys is an association list; reading a key that is absent
  gives \<^verbatim>\<open>undefined\<close> (\<open>None\<close>), assigning to it adds the key.\<close>

type_synonym 'v obj = "(string \<times> 'v) list"

definition get_prop :: "'v obj \<Rightarrow> string \<Rightarrow> 'v option" where
  "get_prop ob k = map_of ob k"

fun set_prop :: "'v obj \<Rightarrow> string \<Rightarrow> 'v \<Rightarrow> 'v obj" where
  "set_prop [] k v = [(k, v)]"
| "set_prop ((k', v') # ob) k v =
     (if k' = k then (k, v) # ob else (k', v') # set_prop ob k v)"

text \<open>\<^verbatim>\<open>ob[k] += 1\<close>: an absent key reads as \<^verbatim>\<open>undefined\<close>, and \<^verbatim>\<open>undefined + 1\<close> is
  \<open>NaN\<close>.\<close>

definition increment_prop :: "jsnum obj \<Rightarrow> string \<Rightarrow> jsnum obj" where
  "increment_prop ob k =
     set_prop ob k (case get_prop ob k of None \<Rightarrow> NaN | Some n \<Rightarrow> js_add n (Num 1))"

text \<open>\<^verbatim>\<open>Object.values(ob).reduce((a, b) => a + b, 0)\<close>.\<close>

definition sum_values :: "jsnum obj \<Rightarrow> jsnum" where
  "sum_values ob = foldl js_add (Num 0) (map snd ob)"

text \<open>Strings are the bytes of their UTF-8 encoding, as the files hold them (files
  are taken to be valid UTF-8, which reading and writing with \<^verbatim>\<open>'utf8'\<close> preserves). The
  conversion of a number to text, as a template literal does it:\<close>

fun show_nat :: "nat \<Rightarrow> string" where
  "show_nat n =
     (if n < 10 then [char_of (48 + n)]
      else show_nat (n div 10) @ [char_of (48 + n mod 10)])"

declare show_nat.simps [simp del]

fun show_num :: "jsnum \<Rightarrow> string" where
  "show_num (Num n) = (if n < 0 then CHR ''-'' # show_nat (nat (- n)) else show_nat (nat n))"
| "show_num NaN = ''NaN''"

fun show_prop :: "jsnum option \<Rightarrow> string" where
  "show_prop None = ''undefined''"
| "show_prop (Some n) = show_num n"

text \<open>\<^verbatim>\<open>toLowerCase\<close> on ASCII letters, \<^verbatim>\<open>replace('.', '')\<close> (the first dot only) and
  \<^verbatim>\<open>trim\<close> on ASCII white space.\<close>

definition lower_char :: "char \<Rightarrow> char" where
  "lower_char c =
     (let n = (of_char c :: nat)
      in if 65 \<le> n \<and> n \<le> 90 then char_of (n + 32) else c)"

definition toLowerCase :: "string \<Rightarrow> string" where
  "toLowerCase s = map lower_char s"

fun remove_first_dot :: "string \<Rightarrow> string" where
  "remove_first_dot [] = []"
| "remove_first_dot (c # cs) = (if c = CHR ''.'' then cs else c # remove_first_dot cs)"

definition is_space :: "char \<Rightarrow> bool" where
  "is_space c \<longleftrightarrow> c \<in> set [CHR 0x09, CHR 0x0A, CHR 0x0B, CHR 0x0C, CHR 0x0D, CHR '' '']"

definition trim :: "string \<Rightarrow> string" where
  "trim s = rev (dropWhile is_space (rev (dropWhile is_space s)))"

subsection \<open>The state record and its update\<close>

record position =
  pos_x :: jsnum
  pos_y :: jsnum

record state =
  quokka_level :: jsnum
  eaten_leaves :: "jsnum obj"
  current_target :: string
  position :: position

definition techStacks :: "string list" where
  "techStacks = [''JS'', ''TS'', ''React'', ''Next.js'', ''AI'']"

text \<open>\<^verbatim>\<open>Math.floor(Math.random() * n)\<close>.\<close>

definition random_below :: "rnd \<Rightarrow> nat \<Rightarrow> int" where
  "random_below r n = \<lfloor>rnd_value r * real n\<rfloor>"

text \<open>
  Lines 17 to 28 of the script, in their order: count the previous target as eaten,
  recompute the level from the counts, draw the new target and the new position. The
  three arguments are the three results of \<^verbatim>\<open>Math.random()\<close>, in the order of the
  calls. The index into \<open>techStacks\<close> is below its length
  (\<open>target_index_in_range\<close> below).
\<close>

definition updateState :: "rnd \<Rightarrow> rnd \<Rightarrow> rnd \<Rightarrow> state \<Rightarrow> state" where
  "updateState r1 r2 r3 s =
     (let s1 = s\<lparr>eaten_leaves := increment_prop (eaten_leaves s) (current_target s)\<rparr>;
          totalEaten = sum_values (eaten_leaves s1);
          s2 = s1\<lparr>quokka_level := js_add (Math_floor_div totalEaten 5) (Num 1)\<rparr>;
          s3 = s2\<lparr>current_target := techStacks ! nat (random_below r1 (length techStacks))\<rparr>
      in s3\<lparr>position :=
              \<lparr>pos_x = Num (random_below r2 600 + 50),
               pos_y = Num (random_below r3 200 + 100)\<rparr>\<rparr>)"

subsection \<open>SVG fragments and the composed board\<close>

text \<open>
  \<^verbatim>\<open>content.replace(/<svg[^>]*>|<\/svg>/g, '')\<close>: scanning from the left, an opening tag
  \<^verbatim>\<open><svg\<close> up to the first \<^verbatim>\<open>>\<close> after it (when there is one) and every closing tag
  \<^verbatim>\<open></svg>\<close> are removed.
\<close>

function strip_svg_tags :: "string \<Rightarrow> string" where
  "strip_svg_tags [] = []"
| "strip_svg_tags (c # cs) =
     (if take 4 (c # cs) = ''<svg'' \<and> CHR ''>'' \<in> set (drop 4 (c # cs))
      then strip_svg_tags (tl (dropWhile (\<lambda>d. d \<noteq> CHR ''>'') (drop 4 (c # cs))))
      else if take 6 (c # cs) = ''</svg>'' then strip_svg_tags (drop 6 (c # cs))
      else c # strip_svg_tags cs)"
  by pat_completeness auto
termination
proof (relation "measure length")
  fix c :: char and cs :: string
  have "length (dropWhile (\<lambda>d. d \<noteq> CHR ''>'') (drop 4 (c # cs))) \<le> length (drop 4 (c # cs))"
    by (rule length_dropWhile_le)
  then show "(tl (dropWhile (\<lambda>d. d \<noteq> CHR ''>'') (drop 4 (c # cs))), c # cs) \<in> measure length"
    by simp
qed simp_all

text \<open>The assets directory maps a file name to the file's content; a name outside its
  domain is a file that does not exist.\<close>

definition getSvgContent :: "(string \<rightharpoonup> string) \<Rightarrow> string \<Rightarrow> string" where
  "getSvgContent assets filename =
     (case assets filename of
        None \<Rightarrow> []
      | Some content \<Rightarrow> strip_svg_tags content)"

definition leafFileName :: "state \<Rightarrow> string" where
  "leafFileName s = ''leaf-'' @ remove_first_dot (toLowerCase (current_target s)) @ ''.svg''"

definition newline :: string where
  "newline = [CHR 0x0A]"

definition leaf_emoji :: string where
  "leaf_emoji = [CHR 0xF0, CHR 0x9F, CHR 0x8D, CHR 0x83]"

text \<open>The template literal \<^verbatim>\<open>finalSvg\<close>, line by line.\<close>

definition finalSvg :: "state \<Rightarrow> int \<Rightarrow> int \<Rightarrow> string \<Rightarrow> string \<Rightarrow> string" where
  \<open>finalSvg s leafX leafY targetLeafContent quokkaContent = concat
     [newline,
      ''<svg width="800" height="400" viewBox="0 0 800 400" xmlns="http://www.w3.org/2000/svg" shape-rendering="crispEdges">'', newline,
      ''  <rect width="100%" height="100%" fill="#FFF8D6" rx="15" />'', newline,
      ''  '', newline,
      ''  <text x="30" y="40" font-family="monospace" font-size="20" font-weight="bold" fill="#333">'', newline,
      ''    Lv.'', show_num (quokka_level s), '' Quokka'', [CHR 0x27], ''s Tech Stack'', newline,
      ''  </text>'', newline,
      ''  '', newline,
      ''  <text x="30" y="70" font-family="monospace" font-size="16" fill="#555">'', newline,
      ''    '', leaf_emoji,
      '' JS: '', show_prop (get_prop (eaten_leaves s) ''JS''),
      '' | TS: '', show_prop (get_prop (eaten_leaves s) ''TS''),
      '' | React: '', show_prop (get_prop (eaten_leaves s) ''React''),
      '' | Next.js: '', show_prop (get_prop (eaten_leaves s) ''Next.js''),
      '' | AI: '', show_prop (get_prop (eaten_leaves s) ''AI''), newline,
      ''  </text>'', newline,
      ''  <text x="30" y="95" font-family="monospace" font-size="14" fill="#888">'', newline,
      ''    * Quokka is hunting for ['', current_target s, ''] today!'', newline,
      ''  </text>'', newline,
      newline,
      ''  <g transform="translate('', show_num (Num leafX), '', '', show_num (Num leafY), '') scale(1.5)">'', newline,
      ''    '', targetLeafContent, newline,
      ''  </g>'', newline,
      newline,
      ''  <g transform="translate('', show_num (pos_x (position s)), '', '', show_num (pos_y (position s)), '') scale(3)">'', newline,
      ''    '', quokkaContent, newline,
      ''  </g>'', newline,
      ''</svg>'', newline]\<close>

subsection \<open>The whole run\<close>

text \<open>
  The state file is missing, is not JSON, or parses to a state record. The first two
  abort the run at line 11. A run that goes through writes the state file (line 34)
  and then the board (line 78).
\<close>

datatype state_file = Missing | Malformed | Parsed state

datatype fatal = ENOENT | SyntaxError

record board_output =
  state_json :: state
  board_svg :: string

definition generate_quokka ::
  "state_file \<Rightarrow> (string \<rightharpoonup> string) \<Rightarrow> rnd \<Rightarrow> rnd \<Rightarrow> rnd \<Rightarrow> rnd \<Rightarrow> rnd \<Rightarrow> fatal + board_output" where
  "generate_quokka file assets r1 r2 r3 r4 r5 =
     (case file of
        Missing \<Rightarrow> Inl ENOENT
      | Malformed \<Rightarrow> Inl SyntaxError
      | Parsed s0 \<Rightarrow>
          let s = updateState r1 r2 r3 s0;
              leafX = random_below r4 600 + 50;
              leafY = random_below r5 200 + 150;
              quokkaContent = getSvgContent assets ''quokka.svg'';
              targetLeafContent = getSvgContent assets (leafFileName s)
          in Inr \<lparr>state_json = s,
                  board_svg = trim (finalSvg s leafX leafY targetLeafContent quokkaContent)\<rparr>)"

subsection \<open>An example record\<close>

text \<open>Four leaves eaten so far, the target \<open>TS\<close> among the keys.\<close>

definition example_state :: state where
  "example_state =
     \<lparr>quokka_level = Num 1,
      eaten_leaves =
        [(''JS'', Num 2), (''TS'', Num 1), (''React'', Num 0), (''Next.js'', Num 1), (''AI'', Num 0)],
      current_target = ''TS'',
      position = \<lparr>pos_x = Num 100, pos_y = Num 120\<rparr>\<rparr>"

section \<open>Scene-to-GIF Renderer (scripts/render-quokka-gif.mjs)\<close>

subsection \<open>Command-line numbers and the frame count\<close>

text \<open>
  A number of the script is a finite number, an infinity, or \<open>NaN\<close>;
  \<^verbatim>\<open>Number(argv.fps ?? 12)\<close> is \<open>NaN\<close> for an argument that is not numeric, and a
  product with a factor \<open>NaN\<close> is \<open>NaN\<close>. Finite numbers are real numbers here. Where
  \<^verbatim>\<open>main\<close> derives a value from the command line by rounded arithmetic (the product
  \<^verbatim>\<open>FPS * DURATION_SEC\<close>, the ground line \<^verbatim>\<open>Math.floor(HEIGHT * 0.58)\<close>, the time step
  \<^verbatim>\<open>1 / FPS\<close> and the time \<^verbatim>\<open>Math.floor((i * 1000) / FPS)\<close> of step \<open>i\<close>), the model takes
  the value as an input; \<^verbatim>\<open>Math.floor\<close>, \<^verbatim>\<open>Math.max\<close>, \<^verbatim>\<open>Math.min\<close> and comparisons are
  exact.
\<close>

datatype jsnumber = Fin real | PosInfinity | NegInfinity | NotANumber



text \<open>The comparison \<^verbatim>\<open>a < b\<close>; any comparison with \<open>NaN\<close> is false.\<close>

fun js_less :: "jsnumber \<Rightarrow> jsnumber \<Rightarrow> bool" where
  "js_less NotANumber _ = False"
| "js_less _ NotANumber = False"
| "js_less (Fin a) (Fin b) = (a < b)"
| "js_less PosInfinity _ = False"
| "js_less NegInfinity NegInfinity = False"
| "js_less NegInfinity _ = True"
| "js_less (Fin a) PosInfinity = True"
| "js_less (Fin a) NegInfinity = False"


text \<open>
  The loop of \<^verbatim>\<open>main\<close>, \<^verbatim>\<open>for (let i = 0; i < FRAMES; i++) { ... }\<close>. Its body advances
  the scene by one step and adds one frame to the encoder; the second component of the
  loop state counts the frames added. With \<^verbatim>\<open>FRAMES\<close> infinite the loop does not end,
  which is the value \<open>None\<close>.
\<close>

partial_function (option) frame_loop ::
  "(nat \<Rightarrow> 's \<Rightarrow> 's) \<Rightarrow> jsnumber \<Rightarrow> nat \<Rightarrow> 's \<times> nat \<Rightarrow> ('s \<times> nat) option" where
  "frame_loop body frames i sn =
     (if js_less (Fin (real i)) frames
      then frame_loop body frames (Suc i) (body i (fst sn), Suc (snd sn))
      else Some sn)"

subsection \<open>Utilities\<close>

definition clamp :: "real \<Rightarrow> real \<Rightarrow> real \<Rightarrow> real" where
  "clamp n a b = max a (min b n)"

definition rand :: "rnd \<Rightarrow> real \<Rightarrow> real \<Rightarrow> real" where
  "rand r lo hi = lo + rnd_value r * (hi - lo)"

definition randInt :: "rnd \<Rightarrow> int \<Rightarrow> int \<Rightarrow> int" where
  "randInt r lo hi = \<lfloor>rand r (of_int lo) (of_int (hi + 1))\<rfloor>"

definition dist2 :: "real \<Rightarrow> real \<Rightarrow> real \<Rightarrow> real \<Rightarrow> real" where
  "dist2 ax ay bx by = (let dx = ax - bx; dy = ay - by in dx * dx + dy * dy)"

text \<open>
  The results of \<^verbatim>\<open>Math.random()\<close> still to come, in the order of the calls. A function
  that draws returns the sequence that is left.
\<close>

type_synonym rng = "nat \<Rightarrow> rnd"

definition skip :: "nat \<Rightarrow> rng \<Rightarrow> rng" where
  "skip k g = (\<lambda>n. g (n + k))"

subsection \<open>Scene objects\<close>

record config =
  WIDTH :: real
  HEIGHT :: real

record zone =
  x1 :: real
  x2 :: real
  y1 :: real
  y2 :: real

definition createSpawnZones :: "config \<Rightarrow> real \<Rightarrow> zone list" where
  "createSpawnZones cfg groundY =
     (let top = groundY + 14; bottom = HEIGHT cfg - 16
      in [\<lparr>x1 = 40, x2 = 260, y1 = top + 10, y2 = bottom\<rparr>,
          \<lparr>x1 = 460, x2 = WIDTH cfg - 40, y1 = top + 10, y2 = bottom\<rparr>,
          \<lparr>x1 = 60, x2 = 320, y1 = top, y2 = top + 32\<rparr>,
          \<lparr>x1 = 400, x2 = WIDTH cfg - 60, y1 = top, y2 = top + 32\<rparr>])"

text \<open>\<^verbatim>\<open>pickSpawnPoint\<close> draws three times: the zone, then \<open>x\<close>, then \<open>y\<close>. The scene calls
  it with the four zones above, so the index drawn lies within the list
  (\<open>zone_index_in_range\<close> below).\<close>

definition pickSpawnPoint :: "zone list \<Rightarrow> rng \<Rightarrow> (real \<times> real) \<times> rng" where
  "pickSpawnPoint zones g =
     (let z = zones ! nat (randInt (g 0) 0 (int (length zones) - 1))
      in ((rand (g 1) (x1 z) (x2 z), rand (g 2) (y1 z) (y2 z)), skip 3 g))"

datatype leaf_state = Alive | Eating | Dead

record leaf =
  lf_id :: nat
  lf_label :: string
  lf_state :: leaf_state
  eatStartMs :: int
  eatDurationMs :: int
  respawnAt :: int
  lf_x :: real
  lf_y :: real
  lf_r :: real

definition leaf_keys :: "string list" where
  "leaf_keys = [''JS'', ''REACT'', ''TS'', ''NEXT'', ''AI'']"

text \<open>\<^verbatim>\<open>createLeaves\<close>: leaves \<open>i, i+1, ..., 8\<close>, each at a drawn spawn point, all alive.\<close>

function createLeaves_from :: "nat \<Rightarrow> zone list \<Rightarrow> rng \<Rightarrow> leaf list \<times> rng" where
  "createLeaves_from i zones g =
     (if i < 9 then
        (let (p, g1) = pickSpawnPoint zones g;
             lf = \<lparr>lf_id = i, lf_label = leaf_keys ! (i mod length leaf_keys),
                   lf_state = Alive, eatStartMs = 0, eatDurationMs = 250, respawnAt = 0,
                   lf_x = fst p, lf_y = snd p, lf_r = 14\<rparr>;
             (rest, g2) = createLeaves_from (Suc i) zones g1
         in (lf # rest, g2))
      else ([], g))"
  by pat_completeness auto
termination
  by (relation "measure (\<lambda>(i, zones, g). 9 - i)") auto

declare createLeaves_from.simps [simp del]

definition createLeaves :: "zone list \<Rightarrow> rng \<Rightarrow> leaf list \<times> rng" where
  "createLeaves zones g = createLeaves_from 0 zones g"

definition respawnLeaf :: "leaf \<Rightarrow> zone list \<Rightarrow> rng \<Rightarrow> leaf \<times> rng" where
  "respawnLeaf lf zones g =
     (let (p, g1) = pickSpawnPoint zones g
      in (lf\<lparr>lf_state := Alive, lf_x := fst p, lf_y := snd p, respawnAt := 0, eatStartMs := 0\<rparr>,
          g1))"

definition startEatLeaf :: "leaf \<Rightarrow> int \<Rightarrow> leaf" where
  "startEatLeaf lf nowMs = lf\<lparr>lf_state := Eating, eatStartMs := nowMs\<rparr>"

definition finishEatLeaf :: "leaf \<Rightarrow> int \<Rightarrow> rng \<Rightarrow> leaf \<times> rng" where
  "finishEatLeaf lf nowMs g =
     (lf\<lparr>lf_state := Dead, respawnAt := nowMs + randInt (g 0) 1400 3600\<rparr>, skip 1 g)"

record quokka =
  q_x :: real
  q_y :: real
  q_vx :: real
  q_vy :: real
  q_dirX :: real
  q_dirY :: real
  nextDirAt :: int
  q_speed :: real
  q_r :: real

definition createQuokka :: "config \<Rightarrow> real \<Rightarrow> quokka" where
  "createQuokka cfg groundY =
     \<lparr>q_x = WIDTH cfg * 0.5, q_y = groundY + 26, q_vx = 0, q_vy = 0, q_dirX = 1, q_dirY = 0,
      nextDirAt = 0, q_speed = 56, q_r = 18\<rparr>"

text \<open>\<^verbatim>\<open>updateQuokka\<close>, statement by statement. A new heading takes two draws.\<close>

definition updateQuokka :: "config \<Rightarrow> quokka \<Rightarrow> real \<Rightarrow> int \<Rightarrow> real \<Rightarrow> rng \<Rightarrow> quokka \<times> rng" where
  "updateQuokka cfg q dtSec nowMs groundY g =
     (let (qa, g1) =
            (if nowMs \<ge> nextDirAt q then
               (let angle = rand (g 0) 0 (pi * 2)
                in (q\<lparr>q_dirX := cos angle, q_dirY := sin angle * 0.35,
                      nextDirAt := nowMs + randInt (g 1) 320 900\<rparr>, skip 2 g))
             else (q, g));
          ax = q_dirX qa * q_speed qa * 2.2;
          ay = q_dirY qa * q_speed qa * 2.2;
          qb = qa\<lparr>q_vx := q_vx qa + ax * dtSec, q_vy := q_vy qa + ay * dtSec\<rparr>;
          qc = qb\<lparr>q_vx := q_vx qb * (0.06 powr dtSec), q_vy := q_vy qb * (0.06 powr dtSec)\<rparr>;
          qd = qc\<lparr>q_x := q_x qc + q_vx qc * dtSec, q_y := q_y qc + q_vy qc * dtSec\<rparr>;
          qe = qd\<lparr>q_x := clamp (q_x qd) 20 (WIDTH cfg - 20),
                  q_y := clamp (q_y qd) (groundY + 12) (HEIGHT cfg - 10)\<rparr>;
          qf = (if q_x qe \<le> 22 \<or> q_x qe \<ge> WIDTH cfg - 22 then qe\<lparr>nextDirAt := 0\<rparr> else qe);
          qg = (if q_y qf \<le> groundY + 14 \<or> q_y qf \<ge> HEIGHT cfg - 12
                then qf\<lparr>nextDirAt := 0\<rparr> else qf)
      in (qg, g1))"

text \<open>\<^verbatim>\<open>collideStartEat\<close> returns whether the leaf started to be eaten, and the leaf.\<close>

definition collideStartEat :: "quokka \<Rightarrow> leaf \<Rightarrow> int \<Rightarrow> bool \<times> leaf" where
  "collideStartEat q lf nowMs =
     (if lf_state lf \<noteq> Alive then (False, lf)
      else (let rr = (q_r q + lf_r lf) * (q_r q + lf_r lf)
            in if dist2 (q_x q) (q_y q) (lf_x lf) (lf_y lf) \<le> rr
               then (True, startEatLeaf lf nowMs)
               else (False, lf)))"

record popup =
  popup_text :: string
  popup_x :: real
  popup_y :: real
  startMs :: int
  durationMs :: int

definition createPopup :: "string \<Rightarrow> real \<Rightarrow> real \<Rightarrow> int \<Rightarrow> popup" where
  "createPopup text x y nowMs =
     \<lparr>popup_text = ''+'' @ text, popup_x = x, popup_y = y, startMs = nowMs, durationMs = 1200\<rparr>"

definition updatePopups :: "popup list \<Rightarrow> int \<Rightarrow> popup list" where
  "updatePopups popups nowMs = filter (\<lambda>p. nowMs - startMs p \<le> durationMs p) popups"

subsection \<open>One simulation step\<close>

text \<open>The three loops over the leaves in the body of the frame loop (lines 499 to
  523), each in the order of the list.\<close>

fun respawn_loop :: "zone list \<Rightarrow> int \<Rightarrow> leaf list \<Rightarrow> rng \<Rightarrow> leaf list \<times> rng" where
  "respawn_loop zones nowMs [] g = ([], g)"
| "respawn_loop zones nowMs (lf # lfs) g =
     (let (lf1, g1) = (if lf_state lf = Dead \<and> nowMs \<ge> respawnAt lf
                        then respawnLeaf lf zones g else (lf, g));
          (rest, g2) = respawn_loop zones nowMs lfs g1
      in (lf1 # rest, g2))"

fun collide_loop :: "quokka \<Rightarrow> int \<Rightarrow> leaf list \<Rightarrow> popup list \<Rightarrow> leaf list \<times> popup list" where
  "collide_loop q nowMs [] popups = ([], popups)"
| "collide_loop q nowMs (lf # lfs) popups =
     (let (started, lf1) = collideStartEat q lf nowMs;
          popups1 = (if started
                     then popups @ [createPopup (lf_label lf1) (q_x q) (q_y q) nowMs]
                     else popups);
          (rest, popups2) = collide_loop q nowMs lfs popups1
      in (lf1 # rest, popups2))"

fun finish_loop :: "int \<Rightarrow> leaf list \<Rightarrow> rng \<Rightarrow> leaf list \<times> rng" where
  "finish_loop nowMs [] g = ([], g)"
| "finish_loop nowMs (lf # lfs) g =
     (let (lf1, g1) = (if lf_state lf = Eating \<and> nowMs - eatStartMs lf \<ge> eatDurationMs lf
                        then finishEatLeaf lf nowMs g else (lf, g));
          (rest, g2) = finish_loop nowMs lfs g1
      in (lf1 # rest, g2))"

record scene =
  leaves :: "leaf list"
  walker :: quokka
  popups :: "popup list"

text \<open>
  The simulation part of the loop body at time \<open>nowMs\<close> (lines 498 to 526). The drawing
  that follows it reads the scene and draws further random numbers but changes no
  object; \<open>g\<close> is the sequence of random results from the start of the body. The body
  is cut in two at the collision loop: \<open>before_collisions\<close> is the respawn loop and the
  walker's update.
\<close>

definition before_collisions ::
  "config \<Rightarrow> real \<Rightarrow> real \<Rightarrow> int \<Rightarrow> rng \<Rightarrow> scene \<Rightarrow> leaf list \<times> quokka \<times> rng" where
  "before_collisions cfg groundY dtSec nowMs g sc =
     (let zones = createSpawnZones cfg groundY;
          (leaves1, g1) = respawn_loop zones nowMs (leaves sc) g;
          (q1, g2) = updateQuokka cfg (walker sc) dtSec nowMs groundY g1
      in (leaves1, q1, g2))"

definition frame_step :: "config \<Rightarrow> real \<Rightarrow> real \<Rightarrow> int \<Rightarrow> rng \<Rightarrow> scene \<Rightarrow> scene" where
  "frame_step cfg groundY dtSec nowMs g sc =
     (let (leaves1, q1, g2) = before_collisions cfg groundY dtSec nowMs g sc;
          (leaves2, popups1) = collide_loop q1 nowMs leaves1 (popups sc);
          (leaves3, g3) = finish_loop nowMs leaves2 g2
      in \<lparr>leaves = leaves3, walker = q1, popups = updatePopups popups1 nowMs\<rparr>)"


text \<open>The scene before the first step (lines 490 to 493).\<close>

definition initial_scene :: "config \<Rightarrow> real \<Rightarrow> rng \<Rightarrow> scene" where
  "initial_scene cfg groundY g =
     \<lparr>leaves = fst (createLeaves (createSpawnZones cfg groundY) g),
      walker = createQuokka cfg groundY,
      popups = []\<rparr>"



subsection \<open>Transitions of a leaf, canvases and scenes used below\<close>

text \<open>The three changes of state the script performs on a leaf: \<^verbatim>\<open>respawnLeaf\<close> on a dead
  leaf, \<^verbatim>\<open>startEatLeaf\<close> on a living one, \<^verbatim>\<open>finishEatLeaf\<close> on one being eaten.\<close>

definition respawned :: "leaf \<Rightarrow> leaf \<Rightarrow> bool" where
  "respawned a b \<longleftrightarrow> lf_state a = Dead \<and> lf_state b = Alive"

definition began_eating :: "leaf \<Rightarrow> leaf \<Rightarrow> bool" where
  "began_eating a b \<longleftrightarrow> lf_state a = Alive \<and> lf_state b = Eating"

definition finished_eating :: "leaf \<Rightarrow> leaf \<Rightarrow> bool" where
  "finished_eating a b \<longleftrightarrow> lf_state a = Eating \<and> lf_state b = Dead"


text \<open>The default canvas (720 by 200, for which \<^verbatim>\<open>Math.floor(200 * 0.58)\<close> is 115 in
  double arithmetic), and the canvas of \<^verbatim>\<open>--w 30\<close>.\<close>

definition default_config :: config where
  "default_config = \<lparr>WIDTH = 720, HEIGHT = 200\<rparr>"


text \<open>The random source that returns 0 at every call.\<close>

definition zero_rng :: rng where
  "zero_rng = (\<lambda>n. draw 0 1)"

text \<open>A leaf that began to be eaten at time 0, alone in a scene; a popup created at
  time 0, alone in a scene without leaves.\<close>

definition eating_leaf :: leaf where
  "eating_leaf =
     \<lparr>lf_id = 0, lf_label = ''JS'', lf_state = Eating, eatStartMs = 0, eatDurationMs = 250,
      respawnAt = 0, lf_x = 100, lf_y = 150, lf_r = 14\<rparr>"

definition eating_scene :: scene where
  "eating_scene =
     \<lparr>leaves = [eating_leaf], walker = createQuokka default_config 115, popups = []\<rparr>"


section \<open>README Post-List Syncer (src/unnamed/part_001)\<close>

subsection \<open>The remote repository\<close>

text \<open>
  \<^verbatim>\<open>githubRequest(url)\<close> is rejected (a status other than 200, a body that is not JSON, a
  network error) or resolves to the parsed body. A body is an array of entries, each
  with a type, a name and a URL; or a file object, of which the script reads the content
  (here already decoded from base64); or something else. The remote side is a function
  from the URL requested to the outcome of the request (a run requests a URL once).
  Strings are bytes, as in the first script; white space is the ASCII white space.
\<close>

record entry =
  entry_type :: string
  entry_name :: string
  entry_url :: string

datatype body = Listing "entry list" | FileData string | OtherJson

datatype response = Rejected | Resolved body

type_synonym remote = "string \<Rightarrow> response"

definition BLOG_BASE_URL :: string where
  "BLOG_BASE_URL = ''https://oddn.ai.kr''"

definition MAX_POSTS :: nat where
  "MAX_POSTS = 5"

definition blog_directory_url :: string where
  "blog_directory_url = ''https://api.github.com/repos/hyunbeanohh/ODDN-Blog/contents/content/blog''"

subsection \<open>Searching and splitting strings\<close>

text \<open>\<^verbatim>\<open>s.indexOf(pat)\<close>: the position of the first occurrence of \<open>pat\<close>, if there is
  one.\<close>

fun find_sub :: "string \<Rightarrow> string \<Rightarrow> nat option" where
  "find_sub pat [] = (if pat = [] then Some 0 else None)"
| "find_sub pat (c # cs) =
     (if take (length pat) (c # cs) = pat then Some 0 else map_option Suc (find_sub pat cs))"

definition str_includes :: "string \<Rightarrow> string \<Rightarrow> bool" where
  "str_includes s pat \<longleftrightarrow> find_sub pat s \<noteq> None"

definition endsWith :: "string \<Rightarrow> string \<Rightarrow> bool" where
  "endsWith s suffix \<longleftrightarrow> length suffix \<le> length s \<and> drop (length s - length suffix) s = suffix"

text \<open>\<^verbatim>\<open>s.split('\n')\<close> and \<^verbatim>\<open>lines.join('\n')\<close>.\<close>

fun split_on :: "char \<Rightarrow> string \<Rightarrow> string list" where
  "split_on sep [] = [[]]"
| "split_on sep (c # cs) =
     (if c = sep then [] # split_on sep cs
      else (case split_on sep cs of
              l # ls \<Rightarrow> (c # l) # ls
            | [] \<Rightarrow> [[c]]))"

fun join :: "string \<Rightarrow> string list \<Rightarrow> string" where
  "join sep [] = []"
| "join sep [l] = l"
| "join sep (l # m # ls) = l @ sep @ join sep (m # ls)"

subsection \<open>The header block\<close>

text \<open>
  \<^verbatim>\<open>content.match(/^---\s*\n([\s\S]*?)\n---/)\<close>. The content must begin with three
  dashes. The white space after them (\<open>\s\<close>, here the ASCII white space) is taken as far
  as it goes and then given back down to one of its line breaks, the last one first; the
  block starts after that line break and ends before the first line break that three
  dashes follow. The first line break for which such an end exists decides.
\<close>

fun block_from :: "string \<Rightarrow> nat list \<Rightarrow> string option" where
  "block_from rest [] = None"
| "block_from rest (k # ks) =
     (case find_sub (CHR 0x0A # ''---'') (drop (Suc k) rest) of
        Some j \<Rightarrow> Some (take j (drop (Suc k) rest))
      | None \<Rightarrow> block_from rest ks)"

definition frontmatter_block :: "string \<Rightarrow> string option" where
  "frontmatter_block content =
     (if take 3 content = ''---'' then
        (let rest = drop 3 content;
             ws = takeWhile is_space rest
         in block_from rest (rev (filter (\<lambda>k. ws ! k = CHR 0x0A) [0..<length ws])))
      else None)"

text \<open>\<^verbatim>\<open>value.replace(/^["']|["']$/g, '')\<close>: a quote at the start is removed, and a quote
  at the end of what is left.\<close>

definition is_quote :: "char \<Rightarrow> bool" where
  "is_quote c \<longleftrightarrow> c = CHR 0x22 \<or> c = CHR 0x27"

definition strip_quotes :: "string \<Rightarrow> string" where
  "strip_quotes s =
     (let s1 = (case s of c # cs \<Rightarrow> if is_quote c then cs else s | [] \<Rightarrow> [])
      in if s1 \<noteq> [] \<and> is_quote (last s1) then butlast s1 else s1)"

text \<open>One line of the block: a line without a colon, or with nothing but white space
  before the first colon, adds nothing; a key set twice keeps the later value.\<close>

definition parse_line :: "string obj \<Rightarrow> string \<Rightarrow> string obj" where
  "parse_line frontmatter line =
     (if CHR '':'' \<notin> set line then frontmatter
      else (let key = trim (takeWhile (\<lambda>c. c \<noteq> CHR '':'') line);
                val = strip_quotes (trim (tl (dropWhile (\<lambda>c. c \<noteq> CHR '':'') line)))
            in if key \<noteq> [] then set_prop frontmatter key val else frontmatter))"

definition parseFrontmatter :: "string \<Rightarrow> string obj" where
  "parseFrontmatter content =
     (case frontmatter_block content of
        None \<Rightarrow> []
      | Some block \<Rightarrow> foldl parse_line [] (split_on (CHR 0x0A) block))"

subsection \<open>Collecting the posts\<close>

record post =
  title :: string
  date :: string
  description :: string
  slug :: string
  url :: string

text \<open>Why a folder gives no post: no \<^verbatim>\<open>.mdx\<close> or \<^verbatim>\<open>.md\<close> file in it, no title or no
  date in the header block (both with a \<^verbatim>\<open>[skip]\<close> warning), or an exception caught
  by the \<^verbatim>\<open>try\<close> around the loop body (a rejected request, a body of the wrong
  shape).\<close>

datatype skipped = NoContentFile | MissingTitleOrDate | CaughtError

text \<open>\<^verbatim>\<open>dirContents.find(f => f.name.endsWith('.mdx')) || dirContents.find(f =>
  f.name.endsWith('.md'))\<close>.\<close>

definition find_content_file :: "entry list \<Rightarrow> entry option" where
  "find_content_file dirContents =
     (case List.find (\<lambda>f. endsWith (entry_name f) ''.mdx'') dirContents of
        Some f \<Rightarrow> Some f
      | None \<Rightarrow> List.find (\<lambda>f. endsWith (entry_name f) ''.md'') dirContents)"

text \<open>A header field counts as present when it is set and not the empty string
  (\<^verbatim>\<open>!fm.title\<close> is true for both).\<close>

definition truthy :: "string option \<Rightarrow> bool" where
  "truthy v \<longleftrightarrow> (case v of None \<Rightarrow> False | Some s \<Rightarrow> s \<noteq> [])"

text \<open>The body of the loop over the folders (lines 91 to 128).\<close>

definition folder_post :: "remote \<Rightarrow> entry \<Rightarrow> skipped + post" where
  "folder_post remote folder =
     (case remote (entry_url folder) of
        Resolved (Listing dirContents) \<Rightarrow>
          (case find_content_file dirContents of
             None \<Rightarrow> Inl NoContentFile
           | Some mdxFile \<Rightarrow>
               (case remote (entry_url mdxFile) of
                  Resolved (FileData rawContent) \<Rightarrow>
                    (let fm = parseFrontmatter rawContent
                     in if \<not> truthy (get_prop fm ''title'') \<or> \<not> truthy (get_prop fm ''date'')
                        then Inl MissingTitleOrDate
                        else Inr \<lparr>title = the (get_prop fm ''title''),
                                  date = the (get_prop fm ''date''),
                                  description =
                                    (case get_prop fm ''description'' of
                                       None \<Rightarrow> [] | Some d \<Rightarrow> d),
                                  slug = entry_name folder,
                                  url = BLOG_BASE_URL @ ''/'' @ entry_name folder\<rparr>)
                | _ \<Rightarrow> Inl CaughtError))
      | _ \<Rightarrow> Inl CaughtError)"

text \<open>
  \<^verbatim>\<open>posts.sort((a, b) => new Date(b.date) - new Date(a.date))\<close>. \<^verbatim>\<open>new Date(s)\<close> is a
  parameter: the time in milliseconds, or \<open>None\<close> for an invalid date, whose difference
  with anything is \<open>NaN\<close>. The sort puts \<open>a\<close> after \<open>b\<close> only where the comparison is
  positive and is stable; it is modelled as an insertion sort. (With invalid dates among
  the posts the comparison is not an order, and the order an engine produces is its
  own.)
\<close>

definition sorts_after :: "(string \<Rightarrow> int option) \<Rightarrow> post \<Rightarrow> post \<Rightarrow> bool" where
  "sorts_after parseDate a b =
     (case (parseDate (date b), parseDate (date a)) of
        (Some tb, Some ta) \<Rightarrow> tb - ta > 0
      | _ \<Rightarrow> False)"

fun insert_post :: "(string \<Rightarrow> int option) \<Rightarrow> post \<Rightarrow> post list \<Rightarrow> post list" where
  "insert_post parseDate p [] = [p]"
| "insert_post parseDate p (y # ys) =
     (if sorts_after parseDate p y then y # insert_post parseDate p ys else p # y # ys)"

definition sort_posts :: "(string \<Rightarrow> int option) \<Rightarrow> post list \<Rightarrow> post list" where
  "sort_posts parseDate ps = foldr (insert_post parseDate) ps []"


datatype fatal_error =
  MissingToken | RootRequestFailed | UnexpectedResponse | ReadmeNotFound | MarkersNotFound

text \<open>The posts of all folders in the order of the listing, before sorting.\<close>

definition collected_posts :: "remote \<Rightarrow> entry list \<Rightarrow> post list" where
  "collected_posts remote blogDir =
     concat (map (\<lambda>folder. case folder_post remote folder of Inl _ \<Rightarrow> [] | Inr p \<Rightarrow> [p])
       (filter (\<lambda>item. entry_type item = ''dir'') blogDir))"

definition getLatestPosts :: "remote \<Rightarrow> (string \<Rightarrow> int option) \<Rightarrow> fatal_error + post list" where
  "getLatestPosts remote parseDate =
     (case remote blog_directory_url of
        Rejected \<Rightarrow> Inl RootRequestFailed
      | Resolved (Listing blogDir) \<Rightarrow>
          Inr (take MAX_POSTS (sort_posts parseDate (collected_posts remote blogDir)))
      | Resolved _ \<Rightarrow> Inl UnexpectedResponse)"

subsection \<open>Rewriting the document\<close>

definition startMarker :: string where
  "startMarker = ''<!-- BLOG-POST-LIST:START -->''"

definition endMarker :: string where
  "endMarker = ''<!-- BLOG-POST-LIST:END -->''"

text \<open>
  The replacement text of \<^verbatim>\<open>String.prototype.replace\<close> is not taken literally: in it
  \<^verbatim>\<open>$$\<close> stands for a dollar sign, \<^verbatim>\<open>$&\<close> for the text matched, \<^verbatim>\<open>$`\<close> for the text before
  the match and \<^verbatim>\<open>$'\<close> for the text after it. (The pattern has no groups, so \<^verbatim>\<open>$1\<close> and
  the like stay as they are.)
\<close>

fun substitution :: "string \<Rightarrow> string \<Rightarrow> string \<Rightarrow> string \<Rightarrow> string" where
  "substitution matched preceding following [] = []"
| "substitution matched preceding following [c] = [c]"
| "substitution matched preceding following (c # d # cs) =
     (if c = CHR ''$'' \<and> d = CHR ''$'' then CHR ''$'' # substitution matched preceding following cs
      else if c = CHR ''$'' \<and> d = CHR ''&'' then matched @ substitution matched preceding following cs
      else if c = CHR ''$'' \<and> d = CHR 0x60 then preceding @ substitution matched preceding following cs
      else if c = CHR ''$'' \<and> d = CHR 0x27 then following @ substitution matched preceding following cs
      else c # substitution matched preceding following (d # cs))"

text \<open>
  \<^verbatim>\<open>readme.replace(new RegExp(`${startMarker}[\s\S]*?${endMarker}`), newSection)\<close>: the
  match begins at the first start marker and ends with the first end marker after it;
  without such a pair the text is returned as it is.
\<close>

definition replace_section :: "string \<Rightarrow> string \<Rightarrow> string" where
  "replace_section readme newSection =
     (case find_sub startMarker readme of
        None \<Rightarrow> readme
      | Some i \<Rightarrow>
          (case find_sub endMarker (drop (i + length startMarker) readme) of
             None \<Rightarrow> readme
           | Some j \<Rightarrow>
               (let n = length startMarker + j + length endMarker;
                    preceding = take i readme;
                    matched = take n (drop i readme);
                    following = drop (i + n) readme
                in preceding @ substitution matched preceding following newSection @ following)))"

text \<open>\<^verbatim>\<open>formatDate\<close>, the date as the locale \<^verbatim>\<open>ko-KR\<close> writes it, is a parameter.\<close>

definition post_line :: "(string \<Rightarrow> string) \<Rightarrow> post \<Rightarrow> string" where
  \<open>post_line formatDate p =
     ''- ['' @ title p @ '']('' @ url p @ '') <sub>'' @ formatDate (date p) @ ''</sub>''\<close>

definition newSection :: "(string \<Rightarrow> string) \<Rightarrow> post list \<Rightarrow> string" where
  "newSection formatDate posts =
     startMarker @ [CHR 0x0A] @ join [CHR 0x0A] (map (post_line formatDate) posts)
       @ [CHR 0x0A] @ endMarker"

text \<open>\<^verbatim>\<open>updateReadme\<close>: the document does not exist (\<open>None\<close>), lacks a marker, or is
  written anew; the result is the text written.\<close>

definition updateReadme ::
  "string option \<Rightarrow> (string \<Rightarrow> string) \<Rightarrow> post list \<Rightarrow> fatal_error + string" where
  "updateReadme readme_file formatDate posts =
     (case readme_file of
        None \<Rightarrow> Inl ReadmeNotFound
      | Some readme \<Rightarrow>
          if \<not> str_includes readme startMarker \<or> \<not> str_includes readme endMarker
          then Inl MarkersNotFound
          else Inr (replace_section readme (newSection formatDate posts)))"

subsection \<open>The whole run\<close>

text \<open>
  \<^verbatim>\<open>main\<close>, with the handler of line 191: \<open>Inl\<close> is a fatal error (exit code 1), \<open>Inr\<close> a
  run that completes, with the text written to the document if it was written. The
  token is absent when the variable is not set or empty.
\<close>

definition sync_main ::
  "string option \<Rightarrow> remote \<Rightarrow> string option \<Rightarrow> (string \<Rightarrow> int option) \<Rightarrow> (string \<Rightarrow> string)
     \<Rightarrow> fatal_error + string option" where
  "sync_main GITHUB_TOKEN remote readme_file parseDate formatDate =
     (if \<not> truthy GITHUB_TOKEN then Inl MissingToken
      else (case getLatestPosts remote parseDate of
              Inl e \<Rightarrow> Inl e
            | Inr posts \<Rightarrow>
                if length posts = 0 then Inr None
                else (case updateReadme readme_file formatDate posts of
                        Inl e \<Rightarrow> Inl e
                      | Inr updated \<Rightarrow> Inr (Some updated))))"

text \<open>The document after the run.\<close>

definition readme_after :: "string option \<Rightarrow> fatal_error + string option \<Rightarrow> string option" where
  "readme_after readme_file result =
     (case result of Inr (Some updated) \<Rightarrow> Some updated | _ \<Rightarrow> readme_file)"

subsection \<open>An example blog\<close>

text \<open>
  Two post folders whose posts carry the same date, a file beside them, and a folder for
  which the request is rejected. Every other request is rejected too.
\<close>

definition hello_file :: string where
  \<open>hello_file =
     ''---'' @ [CHR 0x0A] @ ''title: "Hello"'' @ [CHR 0x0A] @ ''date: "2024-01-01"'' @ [CHR 0x0A]
       @ ''---'' @ [CHR 0x0A] @ ''Text''\<close>

definition world_file :: string where
  "world_file =
     ''---'' @ [CHR 0x0A] @ ''title: World'' @ [CHR 0x0A] @ ''date: 2024-01-01'' @ [CHR 0x0A]
       @ ''description: second'' @ [CHR 0x0A] @ ''---'' @ [CHR 0x0A]"

definition example_listing :: "entry list" where
  "example_listing =
     [\<lparr>entry_type = ''dir'', entry_name = ''first-post'', entry_url = ''api/first-post''\<rparr>,
      \<lparr>entry_type = ''file'', entry_name = ''notes.md'', entry_url = ''api/notes.md''\<rparr>,
      \<lparr>entry_type = ''dir'', entry_name = ''broken'', entry_url = ''api/broken''\<rparr>,
      \<lparr>entry_type = ''dir'', entry_name = ''second-post'', entry_url = ''api/second-post''\<rparr>]"

definition example_remote :: remote where
  "example_remote u =
     (if u = blog_directory_url then Resolved (Listing example_listing)
      else if u = ''api/first-post'' then
        Resolved (Listing
          [\<lparr>entry_type = ''file'', entry_name = ''index.mdx'', entry_url = ''api/first-post/index.mdx''\<rparr>])
      else if u = ''api/first-post/index.mdx'' then Resolved (FileData hello_file)
      else if u = ''api/second-post'' then
        Resolved (Listing
          [\<lparr>entry_type = ''file'', entry_name = ''cover.png'', entry_url = ''api/second-post/cover.png''\<rparr>,
           \<lparr>entry_type = ''file'', entry_name = ''index.md'', entry_url = ''api/second-post/index.md''\<rparr>])
      else if u = ''api/second-post/index.md'' then Resolved (FileData world_file)
      else Rejected)"

definition example_parseDate :: "string \<Rightarrow> int option" where
  "example_parseDate s = (if s = ''2024-01-01'' then Some 1704067200000 else None)"

definition example_formatDate :: "string \<Rightarrow> string" where
  "example_formatDate s = (if s = ''2024-01-01'' then ''2024. 01. 01.'' else ''Invalid Date'')"



definition example_readme :: string where
  "example_readme =
     ''# Hi'' @ [CHR 0x0A] @ startMarker @ [CHR 0x0A] @ ''- old'' @ [CHR 0x0A] @ endMarker
       @ [CHR 0x0A] @ ''bye''"

definition example_updated :: string where
  "example_updated =
     ''# Hi'' @ [CHR 0x0A] @ startMarker @ [CHR 0x0A]
       @ ''- [Hello](https://oddn.ai.kr/first-post) <sub>2024. 01. 01.</sub>'' @ [CHR 0x0A]
       @ ''- [World](https://oddn.ai.kr/second-post) <sub>2024. 01. 01.</sub>'' @ [CHR 0x0A]
       @ endMarker @ [CHR 0x0A] @ ''bye''"

section \<open>An example board\<close>

text \<open>The board a run on the example record writes, for the random results \<open>3/5\<close>,
  \<open>1/2\<close>, \<open>1/3\<close>, \<open>0\<close> and \<open>9/10\<close>, when the walker sprite is the file
  \<^verbatim>\<open><svg viewBox=1><p/></svg>\<close> and the sprite of the new target does not exist.\<close>

definition example_board :: string where
  \<open>example_board = join newline
     [''<svg width="800" height="400" viewBox="0 0 800 400" xmlns="http://www.w3.org/2000/svg" shape-rendering="crispEdges">'',
      ''  <rect width="100%" height="100%" fill="#FFF8D6" rx="15" />'',
      ''  '',
      ''  <text x="30" y="40" font-family="monospace" font-size="20" font-weight="bold" fill="#333">'',
      ''    Lv.2 Quokka'' @ [CHR 0x27] @ ''s Tech Stack'',
      ''  </text>'',
      ''  '',
      ''  <text x="30" y="70" font-family="monospace" font-size="16" fill="#555">'',
      ''    '' @ leaf_emoji @ '' JS: 2 | TS: 2 | React: 0 | Next.js: 1 | AI: 0'',
      ''  </text>'',
      ''  <text x="30" y="95" font-family="monospace" font-size="14" fill="#888">'',
      ''    * Quokka is hunting for [Next.js] today!'',
      ''  </text>'',
      [],
      ''  <g transform="translate(50, 330) scale(1.5)">'',
      ''    '',
      ''  </g>'',
      [],
      ''  <g transform="translate(350, 166) scale(3)">'',
      ''    <p/>'',
      ''  </g>'',
      ''</svg>'']\<close>

section \<open>Properties of the State-Board Updater\<close>

subsection \<open>Sums of counters\<close>


lemma js_add_zero [simp]: "js_add (Num 0) v = v"
  by (cases v) simp_all






subsection \<open>The level\<close>



subsection \<open>The randomized fields\<close>



text \<open>The run on the example record with the results \<open>3/5\<close>, \<open>1/2\<close> and \<open>1/3\<close>.\<close>

lemma updateState_example:
  "updateState (draw 3 5) (draw 1 2) (draw 1 3) example_state =
     \<lparr>quokka_level = Num 2,
      eaten_leaves =
        [(''JS'', Num 2), (''TS'', Num 2), (''React'', Num 0), (''Next.js'', Num 1), (''AI'', Num 0)],
      current_target = ''Next.js'',
      position = \<lparr>pos_x = Num 350, pos_y = Num 166\<rparr>\<rparr>"
  by (simp add: updateState_def example_state_def Let_def increment_prop_def get_prop_def
      sum_values_def random_below_def draw.rep_eq techStacks_def)

subsection \<open>Missing fragment files\<close>

text \<open>A whole run on the example record, with the target's sprite missing.\<close>

lemma generate_quokka_example:
  "generate_quokka (Parsed example_state)
      (Map.empty(''quokka.svg'' \<mapsto> ''<svg viewBox=1><p/></svg>''))
      (draw 3 5) (draw 1 2) (draw 1 3) (draw 0 1) (draw 9 10)
   = Inr \<lparr>state_json = updateState (draw 3 5) (draw 1 2) (draw 1 3) example_state,
         board_svg = example_board\<rparr>"
  by code_simp





section \<open>Properties of the Scene-to-GIF Renderer\<close>

subsection \<open>The number of steps\<close>




text \<open>With an infinite frame count the loop has no result.\<close>

lemma frame_loop_posinf: "frame_loop body PosInfinity i sn = None"
proof (rule ccontr)
  assume "frame_loop body PosInfinity i sn \<noteq> None"
  then obtain r where r: "frame_loop body PosInfinity i sn = Some r" by auto
  have "frames \<noteq> PosInfinity" if "frame_loop b frames j t = Some r'"
    for b :: "nat \<Rightarrow> 'a \<Rightarrow> 'a" and frames j t r'
    by (rule frame_loop.raw_induct
          [where P = "\<lambda>body frames i sn y. frames \<noteq> PosInfinity", OF _ that])
      (auto split: if_splits)
  with r show False by blast
qed




subsection \<open>Spawn points\<close>

lemma randInt_range: "lo \<le> hi \<Longrightarrow> lo \<le> randInt r lo hi \<and> randInt r lo hi \<le> hi"
proof -
  assume le: "lo \<le> hi"
  define w where "w = real_of_int (hi + 1) - real_of_int lo"
  define x where "x = real_of_int lo + rnd_value r * w"
  have v: "0 \<le> rnd_value r" "rnd_value r < 1" using rnd_value[of r] by auto
  from le have pos: "0 < w" by (simp add: w_def)
  have "rnd_value r * w < 1 * w"
    using v(2) pos by (rule mult_strict_right_mono)
  then have up: "x < real_of_int (hi + 1)"
    by (simp add: x_def w_def)
  have "0 \<le> rnd_value r * w"
    using v(1) pos by simp
  then have low: "real_of_int lo \<le> x"
    by (simp add: x_def)
  have r: "randInt r lo hi = \<lfloor>x\<rfloor>"
    by (simp add: randInt_def rand_def x_def w_def)
  from low have "lo \<le> \<lfloor>x\<rfloor>" by (simp only: le_floor_iff)
  moreover from up have "\<lfloor>x\<rfloor> < hi + 1" by (simp only: floor_less_iff)
  ultimately show ?thesis unfolding r by simp
qed

text \<open>The zone that \<^verbatim>\<open>pickSpawnPoint\<close> indexes is one of the four zones of the scene.\<close>

lemma zone_index_in_range:
  "nat (randInt r 0 (int (length (createSpawnZones cfg groundY)) - 1))
     < length (createSpawnZones cfg groundY)"
proof -
  have "length (createSpawnZones cfg groundY) = 4"
    by (simp add: createSpawnZones_def Let_def)
  moreover have "0 \<le> randInt r 0 3 \<and> randInt r 0 3 \<le> 3"
    by (rule randInt_range) simp
  ultimately show ?thesis by (simp add: nat_less_iff)
qed

subsection \<open>The walker\<close>

lemma clamp_lower: "a \<le> clamp n a b"
  by (simp add: clamp_def)



lemma updateQuokka_position:
  "\<exists>nx ny. q_x (fst (updateQuokka cfg q dtSec nowMs groundY g)) = clamp nx 20 (WIDTH cfg - 20)
     \<and> q_y (fst (updateQuokka cfg q dtSec nowMs groundY g))
         = clamp ny (groundY + 12) (HEIGHT cfg - 10)"
  by (auto simp: updateQuokka_def Let_def split_def)



text \<open>The lower bounds hold on every canvas.\<close>

lemma walker_lower_bounds:
  "20 \<le> q_x (fst (updateQuokka cfg q dtSec nowMs groundY g))
   \<and> groundY + 12 \<le> q_y (fst (updateQuokka cfg q dtSec nowMs groundY g))"
  using updateQuokka_position[of cfg q dtSec nowMs groundY g] clamp_lower by auto




subsection \<open>The states of a leaf\<close>

lemma respawn_loop_moves:
  "list_all2 (\<lambda>a b. b = a \<or> respawned a b) lfs (fst (respawn_loop zones nowMs lfs g))"
  by (induction lfs arbitrary: g)
    (simp_all add: split_def Let_def respawnLeaf_def respawned_def)

lemma collideStartEat_moves:
  "snd (collideStartEat q lf nowMs) = lf \<or> began_eating lf (snd (collideStartEat q lf nowMs))"
  by (simp add: collideStartEat_def Let_def startEatLeaf_def began_eating_def)

lemma collide_loop_moves:
  "list_all2 (\<lambda>a b. b = a \<or> began_eating a b) lfs (fst (collide_loop q nowMs lfs ps))"
  using collideStartEat_moves
  by (induction lfs arbitrary: ps) (simp_all add: split_def Let_def)

lemma finish_loop_moves:
  "list_all2 (\<lambda>a b. b = a \<or> finished_eating a b) lfs (fst (finish_loop nowMs lfs g))"
  by (induction lfs arbitrary: g)
    (simp_all add: split_def Let_def finishEatLeaf_def finished_eating_def)

lemma leaves_frame_step:
  "leaves (frame_step cfg groundY dtSec nowMs g sc) =
     fst (finish_loop nowMs
       (fst (collide_loop (fst (snd (before_collisions cfg groundY dtSec nowMs g sc))) nowMs
          (fst (before_collisions cfg groundY dtSec nowMs g sc)) (popups sc)))
       (snd (snd (before_collisions cfg groundY dtSec nowMs g sc))))"
  by (simp add: frame_step_def split_def Let_def)

lemma leaves_before_collisions:
  "fst (before_collisions cfg groundY dtSec nowMs g sc)
     = fst (respawn_loop (createSpawnZones cfg groundY) nowMs (leaves sc) g)"
  by (simp add: before_collisions_def split_def Let_def)

lemma eating_through_step:
  assumes r: "list_all2 (\<lambda>a b. b = a \<or> respawned a b) l0 l1"
    and c: "list_all2 (\<lambda>a b. b = a \<or> began_eating a b) l1 l2"
    and f: "list_all2 (\<lambda>a b. b = a \<or> finished_eating a b) l2 l3"
  shows "list_all2 (\<lambda>a b. lf_state a = Eating \<longrightarrow> b = a \<or> finished_eating a b) l0 l3"
proof (rule list_all2_all_nthI)
  from r c f show "length l0 = length l3"
    by (simp add: list_all2_lengthD)
next
  fix n assume n: "n < length l0"
  with r c f have n1: "n < length l1" and n2: "n < length l2"
    by (simp_all add: list_all2_lengthD)
  from r n have 1: "l1 ! n = l0 ! n \<or> respawned (l0 ! n) (l1 ! n)"
    by (rule list_all2_nthD)
  from c n1 have 2: "l2 ! n = l1 ! n \<or> began_eating (l1 ! n) (l2 ! n)"
    by (rule list_all2_nthD)
  from f n2 have 3: "l3 ! n = l2 ! n \<or> finished_eating (l2 ! n) (l3 ! n)"
    by (rule list_all2_nthD)
  show "lf_state (l0 ! n) = Eating \<longrightarrow> l3 ! n = l0 ! n \<or> finished_eating (l0 ! n) (l3 ! n)"
  proof
    assume e: "lf_state (l0 ! n) = Eating"
    with 1 have "l1 ! n = l0 ! n" by (simp add: respawned_def)
    with 2 e have "l2 ! n = l0 ! n" by (simp add: began_eating_def)
    with 3 show "l3 ! n = l0 ! n \<or> finished_eating (l0 ! n) (l3 ! n)" by simp
  qed
qed

lemma createLeaves_alive:
  "list_all (\<lambda>l. lf_state l = Alive) (fst (createLeaves_from i zones g))"
proof (induction i zones g rule: createLeaves_from.induct)
  case (1 i zones g)
  show ?case
  proof (cases "i < 9")
    case True
    with 1[OF True refl, of "fst (pickSpawnPoint zones g)" "snd (pickSpawnPoint zones g)"]
    show ?thesis
      by (subst createLeaves_from.simps) (simp add: split_def Let_def)
  next
    case False
    then show ?thesis by (subst createLeaves_from.simps) simp
  qed
qed

text \<open>
  C2. In one simulation step a leaf passes the respawn loop, the collision loop and the
  finish loop. Each loop leaves a leaf as it is or makes the one change along the cycle
  that belongs to it: dead to alive, alive to eating, eating to dead; the leaves of the
  first scene are all alive. So a leaf that is
  being eaten when a step begins leaves the step unchanged or dead: it is eaten anew only
  after it has been dead and alive again. The collision test returns false and changes
  nothing for a leaf that is not alive, and where it returns true the leaf was alive and
  is now being eaten.
\<close>

theorem item_state_cycle:
  "(\<exists>l1 l2. list_all2 (\<lambda>a b. b = a \<or> respawned a b) (leaves sc) l1
       \<and> list_all2 (\<lambda>a b. b = a \<or> began_eating a b) l1 l2
       \<and> list_all2 (\<lambda>a b. b = a \<or> finished_eating a b) l2
            (leaves (frame_step cfg groundY dtSec nowMs g sc)))
   \<and> list_all2 (\<lambda>a b. lf_state a = Eating \<longrightarrow> b = a \<or> finished_eating a b)
        (leaves sc) (leaves (frame_step cfg groundY dtSec nowMs g sc))
   \<and> (lf_state lf \<noteq> Alive \<longrightarrow> collideStartEat q lf nowMs = (False, lf))
   \<and> (fst (collideStartEat q lf nowMs) \<longrightarrow> began_eating lf (snd (collideStartEat q lf nowMs)))
   \<and> list_all (\<lambda>l. lf_state l = Alive) (leaves (initial_scene cfg groundY g0))"
proof -
  define l1 where "l1 = fst (before_collisions cfg groundY dtSec nowMs g sc)"
  define l2 where "l2 = fst (collide_loop (fst (snd (before_collisions cfg groundY dtSec nowMs g sc)))
      nowMs l1 (popups sc))"
  have a: "list_all2 (\<lambda>a b. b = a \<or> respawned a b) (leaves sc) l1"
    unfolding l1_def leaves_before_collisions by (rule respawn_loop_moves)
  have b: "list_all2 (\<lambda>a b. b = a \<or> began_eating a b) l1 l2"
    unfolding l2_def by (rule collide_loop_moves)
  have c: "list_all2 (\<lambda>a b. b = a \<or> finished_eating a b) l2
      (leaves (frame_step cfg groundY dtSec nowMs g sc))"
    unfolding leaves_frame_step l2_def l1_def by (rule finish_loop_moves)
  have d: "lf_state lf \<noteq> Alive \<longrightarrow> collideStartEat q lf nowMs = (False, lf)"
    by (simp add: collideStartEat_def)
  have e: "fst (collideStartEat q lf nowMs) \<longrightarrow> began_eating lf (snd (collideStartEat q lf nowMs))"
    by (simp add: collideStartEat_def Let_def startEatLeaf_def began_eating_def)
  have ex: "\<exists>l1 l2. list_all2 (\<lambda>a b. b = a \<or> respawned a b) (leaves sc) l1
       \<and> list_all2 (\<lambda>a b. b = a \<or> began_eating a b) l1 l2
       \<and> list_all2 (\<lambda>a b. b = a \<or> finished_eating a b) l2
            (leaves (frame_step cfg groundY dtSec nowMs g sc))"
    using a b c by (intro exI[of _ l1] exI[of _ l2] conjI)
  have i: "list_all (\<lambda>l. lf_state l = Alive) (leaves (initial_scene cfg groundY g0))"
    by (simp add: initial_scene_def createLeaves_def createLeaves_alive)
  from ex eating_through_step[OF a b c] d e i show ?thesis by (intro conjI)
qed

text \<open>A leaf whose 250 ms of being eaten are over dies in the step at time 250; the
  collision test ignored it.\<close>

theorem item_state_cycle_witness:
  "lf_state eating_leaf \<noteq> Alive
   \<and> collideStartEat (createQuokka default_config 115) eating_leaf 250 = (False, eating_leaf)
   \<and> map lf_state (leaves (frame_step default_config 115 (1 / 12) 250 zero_rng eating_scene))
       = [Dead]
   \<and> list_all2 (\<lambda>a b. lf_state a = Eating \<longrightarrow> b = a \<or> finished_eating a b)
        (leaves eating_scene)
        (leaves (frame_step default_config 115 (1 / 12) 250 zero_rng eating_scene))"
proof -
  have s: "lf_state eating_leaf \<noteq> Alive"
    by (simp add: eating_leaf_def)
  have d: "map lf_state (leaves (frame_step default_config 115 (1 / 12) 250 zero_rng eating_scene))
      = [Dead]"
    by (simp add: leaves_frame_step leaves_before_collisions eating_scene_def eating_leaf_def
        collideStartEat_def finishEatLeaf_def split_def Let_def)
  from item_state_cycle[of eating_scene default_config 115 "1 / 12" 250 zero_rng eating_leaf
      "createQuokka default_config 115"] s d
  show ?thesis by simp
qed

subsection \<open>Popups\<close>







section \<open>Properties of the README Post-List Syncer\<close>

subsection \<open>Replacing the section between the markers\<close>

lemma find_sub_split:
  "find_sub pat s = Some i \<Longrightarrow> s = take i s @ pat @ drop (i + length pat) s"
proof (induction s arbitrary: i)
  case Nil
  then show ?case by (simp split: if_splits)
next
  case (Cons c cs)
  show ?case
  proof (cases "take (length pat) (c # cs) = pat")
    case True
    with Cons.prems have "i = 0" by simp
    with True show ?thesis
      by (metis add_0 append_Nil append_take_drop_id take_0)
  next
    case False
    with Cons.prems obtain k where k: "find_sub pat cs = Some k" "i = Suc k" by auto
    from Cons.IH[OF k(1)] k(2) show ?thesis by simp
  qed
qed

lemma substitution_plain_char:
  "c \<noteq> CHR ''$'' \<Longrightarrow> substitution m p f (c # cs) = c # substitution m p f cs"
  by (cases cs) simp_all

lemma substitution_plain:
  "CHR ''$'' \<notin> set xs \<Longrightarrow> substitution m p f (xs @ ys) = xs @ substitution m p f ys"
proof (induction xs)
  case Nil
  show ?case by simp
next
  case (Cons x xs)
  then have "x \<noteq> CHR ''$''" by auto
  then have "substitution m p f (x # (xs @ ys)) = x # substitution m p f (xs @ ys)"
    by (rule substitution_plain_char)
  with Cons show ?case by simp
qed

lemma substitution_at_newline:
  "substitution m p f (xs @ CHR 0x0A # ys)
     = substitution m p f xs @ CHR 0x0A # substitution m p f ys"
proof (induction m p f xs rule: substitution.induct)
  case (1 m p f)
  show ?case by (simp add: substitution_plain_char)
next
  case (2 m p f c)
  show ?case by (simp add: substitution_plain_char)
next
  case (3 m p f c d cs)
  then show ?case by simp
qed

lemma substitution_newSection:
  "substitution m p f (newSection formatDate posts)
     = startMarker @ CHR 0x0A
         # substitution m p f (join [CHR 0x0A] (map (post_line formatDate) posts))
         @ CHR 0x0A # endMarker"
proof -
  define lines where "lines = join [CHR 0x0A] (map (post_line formatDate) posts)"
  have s: "CHR ''$'' \<notin> set startMarker" by (simp add: startMarker_def)
  have e: "CHR ''$'' \<notin> set endMarker" by (simp add: endMarker_def)
  have 1: "substitution m p f endMarker = endMarker"
    using substitution_plain[OF e, of m p f "[]"] by simp
  have "substitution m p f (startMarker @ (CHR 0x0A # (lines @ CHR 0x0A # endMarker)))
      = startMarker @ substitution m p f (CHR 0x0A # (lines @ CHR 0x0A # endMarker))"
    by (rule substitution_plain[OF s])
  also have "substitution m p f (CHR 0x0A # (lines @ CHR 0x0A # endMarker))
      = CHR 0x0A # substitution m p f (lines @ CHR 0x0A # endMarker)"
    by (rule substitution_plain_char) simp
  also have "substitution m p f (lines @ CHR 0x0A # endMarker)
      = substitution m p f lines @ CHR 0x0A # substitution m p f endMarker"
    by (rule substitution_at_newline)
  finally show ?thesis
    unfolding newSection_def lines_def[symmetric] 1 by simp
qed

lemma find_sub_bound: "find_sub pat s = Some i \<Longrightarrow> i + length pat \<le> length s"
proof (induction s arbitrary: i)
  case Nil
  then show ?case by (simp split: if_splits)
next
  case (Cons c cs)
  show ?case
  proof (cases "take (length pat) (c # cs) = pat")
    case True
    then have "length (take (length pat) (c # cs)) = length pat"
      by (rule arg_cong)
    then have "length pat \<le> length (c # cs)"
      by simp
    with True Cons.prems show ?thesis by simp
  next
    case False
    with Cons.prems obtain k where k: "find_sub pat cs = Some k" "i = Suc k" by auto
    from Cons.IH[OF k(1)] k(2) show ?thesis by simp
  qed
qed

lemma take_drop_middle:
  "length pre = i \<Longrightarrow> length mid = j \<Longrightarrow>
   take (length a + j + length b) (drop i (pre @ a @ mid @ b @ suf)) = a @ mid @ b
   \<and> drop (i + (length a + j + length b)) (pre @ a @ mid @ b @ suf) = suf"
  by simp

lemma replace_section_shape:
  "replace_section readme (newSection formatDate posts) = readme
   \<or> (\<exists>pre mid suf mid'.
         readme = pre @ startMarker @ mid @ endMarker @ suf
         \<and> replace_section readme (newSection formatDate posts)
             = pre @ startMarker @ mid' @ endMarker @ suf
         \<and> find_sub startMarker readme = Some (length pre)
         \<and> find_sub endMarker (mid @ endMarker @ suf) = Some (length mid)
         \<and> mid' = CHR 0x0A
             # substitution (startMarker @ mid @ endMarker) pre suf
                 (join [CHR 0x0A] (map (post_line formatDate) posts))
             @ [CHR 0x0A])"
proof (cases "find_sub startMarker readme")
  case None
  then show ?thesis by (simp add: replace_section_def)
next
  case (Some i)
  show ?thesis
  proof (cases "find_sub endMarker (drop (i + length startMarker) readme)")
    case None
    with Some show ?thesis by (simp add: replace_section_def)
  next
    case j: (Some j)
    define pre where "pre = take i readme"
    define rest where "rest = drop (i + length startMarker) readme"
    define mid where "mid = take j rest"
    define suf where "suf = drop (j + length endMarker) rest"
    from find_sub_split[OF Some] have r1: "readme = pre @ startMarker @ rest"
      by (simp add: pre_def rest_def)
    from find_sub_split[OF j] have r2: "rest = mid @ endMarker @ suf"
      by (simp add: mid_def suf_def rest_def)
    have lp: "length pre = i"
      using find_sub_bound[OF Some] by (simp add: pre_def)
    have lj: "length mid = j"
      using find_sub_bound[OF j] by (simp add: mid_def rest_def)
    have full: "readme = pre @ startMarker @ mid @ endMarker @ suf"
      using r1 r2 by simp
    have m: "take (length startMarker + j + length endMarker) (drop i readme)
        = startMarker @ mid @ endMarker"
      and d: "drop (i + (length startMarker + j + length endMarker)) readme = suf"
      using take_drop_middle[OF lp lj, of startMarker endMarker suf] full by simp_all
    have "replace_section readme (newSection formatDate posts)
        = pre @ substitution (startMarker @ mid @ endMarker) pre suf
            (newSection formatDate posts) @ suf"
      using Some j m d by (simp add: replace_section_def Let_def pre_def rest_def)
    then have u: "replace_section readme (newSection formatDate posts)
        = pre @ startMarker @ (CHR 0x0A
             # substitution (startMarker @ mid @ endMarker) pre suf
                 (join [CHR 0x0A] (map (post_line formatDate) posts))
             @ [CHR 0x0A]) @ endMarker @ suf"
      by (simp add: substitution_newSection)
    note full
    moreover have "find_sub startMarker readme = Some (length pre)"
      using Some lp by simp
    moreover have "find_sub endMarker (mid @ endMarker @ suf) = Some (length mid)"
      using j r2 lj by (simp add: rest_def)
    ultimately show ?thesis using u by blast
  qed
qed

subsection \<open>Sorting and collecting\<close>








lemma folder_post_skips:
  "(remote (entry_url folder) = Resolved (Listing dirContents)
      \<and> find_content_file dirContents = None
     \<longrightarrow> folder_post remote folder = Inl NoContentFile)
   \<and> (remote (entry_url folder) = Resolved (Listing dirContents)
      \<and> find_content_file dirContents = Some mdxFile
      \<and> remote (entry_url mdxFile) = Resolved (FileData rawContent)
      \<and> (\<not> truthy (get_prop (parseFrontmatter rawContent) ''title'')
          \<or> \<not> truthy (get_prop (parseFrontmatter rawContent) ''date''))
     \<longrightarrow> folder_post remote folder = Inl MissingTitleOrDate)"
  by (simp add: folder_post_def Let_def)


subsection \<open>The example blog\<close>


lemma example_run:
  "sync_main (Some ''token'') example_remote (Some example_readme) example_parseDate
     example_formatDate = Inr (Some example_updated)"
  by code_simp



subsection \<open>Fatal errors\<close>




subsection \<open>What a run changes in the document\<close>

text \<open>
  C8. The text a run writes is the document with the section from its first start marker
  to the first end marker after it replaced: what stands before the start marker and
  after the end marker is the same, and both markers are written again. (Where no end
  marker follows the first start marker the text written is the document itself.) When
  no post was collected the run writes nothing.
\<close>

theorem document_outside_markers_unchanged:
  "(sync_main tok remote (Some readme) parseDate formatDate = Inr (Some updated) \<longrightarrow>
      updated = readme
      \<or> (\<exists>pre mid suf mid'.
            readme = pre @ startMarker @ mid @ endMarker @ suf
            \<and> updated = pre @ startMarker @ mid' @ endMarker @ suf
            \<and> find_sub startMarker readme = Some (length pre)
            \<and> find_sub endMarker (mid @ endMarker @ suf) = Some (length mid)))
   \<and> (getLatestPosts remote parseDate = Inr [] \<longrightarrow>
        (\<forall>u. sync_main tok remote readme_file parseDate formatDate \<noteq> Inr (Some u))
        \<and> readme_after readme_file (sync_main tok remote readme_file parseDate formatDate)
            = readme_file)"
proof -
  have a: "updated = readme
      \<or> (\<exists>pre mid suf mid'.
            readme = pre @ startMarker @ mid @ endMarker @ suf
            \<and> updated = pre @ startMarker @ mid' @ endMarker @ suf
            \<and> find_sub startMarker readme = Some (length pre)
            \<and> find_sub endMarker (mid @ endMarker @ suf) = Some (length mid))"
    if "sync_main tok remote (Some readme) parseDate formatDate = Inr (Some updated)"
  proof -
    from that obtain posts where
      "updated = replace_section readme (newSection formatDate posts)"
      by (auto simp: sync_main_def updateReadme_def split: sum.splits if_splits)
    with replace_section_shape[of readme formatDate posts] show ?thesis by metis
  qed
  have b: "(\<forall>u. sync_main tok remote readme_file parseDate formatDate \<noteq> Inr (Some u))
        \<and> readme_after readme_file (sync_main tok remote readme_file parseDate formatDate)
            = readme_file"
    if "getLatestPosts remote parseDate = Inr []"
    using that by (simp add: sync_main_def readme_after_def)
  from a b show ?thesis by blast
qed

text \<open>The example document before and after the run, and a run that collects no post.\<close>

theorem document_outside_markers_unchanged_witness:
  "sync_main (Some ''token'') example_remote (Some example_readme) example_parseDate
     example_formatDate = Inr (Some example_updated)
   \<and> example_readme = (''# Hi'' @ [CHR 0x0A]) @ startMarker @ ([CHR 0x0A] @ ''- old'' @ [CHR 0x0A])
        @ endMarker @ ([CHR 0x0A] @ ''bye'')
   \<and> (\<exists>mid'. example_updated = (''# Hi'' @ [CHR 0x0A]) @ startMarker @ mid'
        @ endMarker @ ([CHR 0x0A] @ ''bye''))
   \<and> getLatestPosts (\<lambda>u. Resolved (Listing [])) example_parseDate = Inr []
   \<and> readme_after (Some example_readme)
        (sync_main (Some ''token'') (\<lambda>u. Resolved (Listing [])) (Some example_readme)
           example_parseDate example_formatDate) = Some example_readme"
proof -
  have z: "getLatestPosts (\<lambda>u. Resolved (Listing [])) example_parseDate = Inr []"
    by code_simp
  have r: "example_readme = (''# Hi'' @ [CHR 0x0A]) @ startMarker
      @ ([CHR 0x0A] @ ''- old'' @ [CHR 0x0A]) @ endMarker @ ([CHR 0x0A] @ ''bye'')"
    by (simp add: example_readme_def)
  have u: "\<exists>mid'. example_updated = (''# Hi'' @ [CHR 0x0A]) @ startMarker @ mid'
        @ endMarker @ ([CHR 0x0A] @ ''bye'')"
    unfolding example_updated_def
    by (rule exI[of _ "[CHR 0x0A]
        @ ''- [Hello](https://oddn.ai.kr/first-post) <sub>2024. 01. 01.</sub>'' @ [CHR 0x0A]
        @ ''- [World](https://oddn.ai.kr/second-post) <sub>2024. 01. 01.</sub>'' @ [CHR 0x0A]"])
      simp
  from document_outside_markers_unchanged[of "Some ''token''" "\<lambda>u. Resolved (Listing [])"
      example_readme example_parseDate example_formatDate example_updated "Some example_readme"]
    z example_run r u
  show ?thesis by simp
qed

end
